theory Spec2Isabelle
  imports Complex_Main
begin

section \<open>Values and documents\<close>

text \<open>
  The ledger is JavaScript over Mongoose documents. Amounts are JavaScript numbers; they
  are modelled as exact reals, so every statement below is about the arithmetic the code
  writes down, not about the rounding of IEEE doubles. Document ids are natural numbers
  (unique in a collection) and \<open>new Date()\<close> is a parameter \<open>now\<close>.

  A value of type \<open>loan\<close> is a loan as the collection holds it. \<open>LoanSchema\<close> declares
  \<open>amount\<close>, \<open>total_paid\<close> (default 0), \<open>status\<close> and the dates, and none of
  \<open>interest_rate\<close>, \<open>total_amount_with_interest\<close>, \<open>principal_paid\<close>, \<open>interest_paid\<close>:
  the collection holds one of these four only when it was written outside the schema.
  The code never sees them in a document it loads (\<open>hydrate\<close>) and never writes them with
  \<open>save\<close> (\<open>persist\<close>); a property the code sets on a loaded document lives in that
  document only.
\<close>

definition js_or :: "real option \<Rightarrow> real \<Rightarrow> real" where
  \<comment> \<open>\<open>x || d\<close> on a number that may be undefined: 0 and undefined are falsy.\<close>
  "js_or x d = (case x of None \<Rightarrow> d | Some v \<Rightarrow> if v = 0 then d else v)"

definition falsy :: "real option \<Rightarrow> bool" where
  \<comment> \<open>\<open>!x\<close> on a number that may be undefined.\<close>
  "falsy x = (case x of None \<Rightarrow> True | Some v \<Rightarrow> v = 0)"

definition Math_round :: "real \<Rightarrow> real" where
  \<comment> \<open>\<open>Math.round\<close>: the nearest integer, a tie going up.\<close>
  "Math_round x = of_int \<lfloor>x + 1 / 2\<rfloor>"

datatype loan_status =
  LoanPending | LoanApproved | LoanRejected | LoanPaid | LoanCancelled | LoanVoided

datatype txn_status = TxnPending | TxnCompleted | TxnCancelled | TxnVoided

record loan =
  loan_id :: nat
  loan_supplier :: nat
  amount :: real
  interest_rate :: "real option"
  total_amount_with_interest :: "real option"
  total_paid :: real
  principal_paid :: "real option"
  interest_paid :: "real option"
  status :: loan_status
  completionDate :: "nat option"
  lastPaymentDate :: "nat option"
  createdAt :: nat

record loan_payment =
  pay_loan :: nat
  pay_transaction :: "nat option"
  pay_amount :: real
  payment_method :: string

record supplier =
  current_balance :: real
  is_active :: bool

datatype route_error = Status400 | Status404

section \<open>Loan documents and their hooks (models/Loan.js, models/LoanPayment.js)\<close>

definition hydrate :: "loan \<Rightarrow> loan" where
  \<comment> \<open>The Mongoose document of a loan (\<open>Loan.find\<close>, \<open>Loan.findById\<close>, \<open>new Loan\<close>): the
      paths of \<open>LoanSchema\<close>. The four fields it does not declare read undefined.\<close>
  "hydrate l =
     l\<lparr>interest_rate := None, total_amount_with_interest := None,
       principal_paid := None, interest_paid := None\<rparr>"

definition persist :: "loan \<Rightarrow> loan \<Rightarrow> loan" where
  \<comment> \<open>The stored loan \<open>s\<close> after the write of the document \<open>d\<close>: the schema's paths of
      \<open>d\<close>; what the code set on \<open>d\<close> outside the schema is not written.\<close>
  "persist d s =
     d\<lparr>interest_rate := interest_rate s,
       total_amount_with_interest := total_amount_with_interest s,
       principal_paid := principal_paid s, interest_paid := interest_paid s\<rparr>"

definition loan_pre_save :: "nat \<Rightarrow> loan \<Rightarrow> loan" where
  \<comment> \<open>\<open>LoanSchema.pre('save')\<close>.\<close>
  "loan_pre_save now l =
     (if status l = LoanApproved \<and> total_paid l \<ge> amount l
      then l\<lparr>status := LoanPaid, completionDate := Some now\<rparr>
      else l)"

definition Loan_save :: "nat \<Rightarrow> loan \<Rightarrow> loan list \<Rightarrow> loan list" where
  \<comment> \<open>\<open>loan.save()\<close> of a document just loaded: the pre-save hook, then the write to the
      stored loan of that id.\<close>
  "Loan_save now d loans =
     map (\<lambda>s. if loan_id s = loan_id d then persist (loan_pre_save now d) s else s) loans"

definition Loan_findById :: "nat \<Rightarrow> loan list \<Rightarrow> loan option" where
  "Loan_findById i loans = map_option hydrate (find (\<lambda>l. loan_id l = i) loans)"

definition loan_payment_post_save :: "nat \<Rightarrow> real \<Rightarrow> loan \<Rightarrow> loan" where
  \<comment> \<open>\<open>LoanPaymentSchema.post('save')\<close> for the stored loan \<open>s\<close> that \<open>Loan.findById\<close>
      finds; \<open>pay\<close> is \<open>this.amount\<close>, \<open>now\<close> is \<open>this.payment_date || new Date()\<close>. The
      result is the document handed to \<open>loan.save()\<close>, with the properties the hook set
      on it.\<close>
  "loan_payment_post_save now pay s =
     (let l0 = hydrate s;
          pp = js_or (principal_paid l0) 0;
          ip = js_or (interest_paid l0) 0;
          twi = (if falsy (total_amount_with_interest l0) \<and> \<not> falsy (interest_rate l0)
                 then (let interest = amount l0 * (the (interest_rate l0) / 100)
                       in amount l0 + interest)
                 else if falsy (total_amount_with_interest l0) then amount l0
                 else the (total_amount_with_interest l0));
          l1 = l0\<lparr>principal_paid := Some pp, interest_paid := Some ip,
                  total_amount_with_interest := Some twi\<rparr>;
          l2 = l1\<lparr>total_paid := total_paid l1 + pay\<rparr>;
          interestRemaining = twi - amount l2 - ip;
          l3 = (if interestRemaining > 0
                then (let interestPayment = min pay interestRemaining;
                          principalPayment = pay - interestPayment
                      in if principalPayment > 0
                         then l2\<lparr>interest_paid := Some (ip + interestPayment),
                                 principal_paid := Some (pp + principalPayment)\<rparr>
                         else l2\<lparr>interest_paid := Some (ip + interestPayment)\<rparr>)
                else l2\<lparr>principal_paid := Some (pp + pay)\<rparr>);
          l4 = (if total_paid l3 \<ge> twi
                then l3\<lparr>status := LoanPaid, completionDate := Some now\<rparr>
                else l3)
      in l4\<lparr>lastPaymentDate := Some now\<rparr>)"


definition LoanPayment_save ::
  "nat \<Rightarrow> loan_payment \<Rightarrow> loan list \<times> loan_payment list \<Rightarrow> loan list \<times> loan_payment list" where
  \<comment> \<open>\<open>payment.save()\<close>: the new LoanPayment, then the post-save hook, which loads the
      loan, applies the amount and saves it (and only logs when there is no such loan).\<close>
  "LoanPayment_save now p db =
     (case find (\<lambda>l. loan_id l = pay_loan p) (fst db) of
        None \<Rightarrow> (fst db, snd db @ [p])
      | Some s \<Rightarrow>
          (Loan_save now (loan_payment_post_save now (pay_amount p) s) (fst db), snd db @ [p]))"

definition manual_payment :: "nat \<Rightarrow> real \<Rightarrow> loan_payment" where
  \<comment> \<open>The LoanPayment of the manual route (\<open>payment_method || 'manual'\<close>).\<close>
  "manual_payment lid amt =
     \<lparr>pay_loan = lid, pay_transaction = None, pay_amount = amt, payment_method = ''manual''\<rparr>"

definition post_loan_payment ::
  "nat \<Rightarrow> nat \<Rightarrow> real \<Rightarrow> loan list \<times> loan_payment list \<Rightarrow>
   route_error + (loan list \<times> loan_payment list)" where
  \<comment> \<open>\<open>loanRouter.post('/:id/payments')\<close> (routes/loan.routes.js): the handler checks the
      amount, loads the loan, checks its status and saves the LoanPayment, whose
      post-save hook updates the loan. The result is the store at the reply.\<close>
  "post_loan_payment now loanId amt db =
     (if amt = 0 \<or> amt \<le> 0 then Inl Status400
      else (case Loan_findById loanId (fst db) of
              None \<Rightarrow> Inl Status404
            | Some loan \<Rightarrow>
                if status loan \<noteq> LoanApproved then Inl Status400
                else Inr (LoanPayment_save now (manual_payment loanId amt) db)))"

section \<open>Supplier balance (lib/utils/supplierBalanceUtils.js)\<close>

definition totalRemaining :: "nat \<Rightarrow> loan list \<Rightarrow> real list" where
  \<comment> \<open>The aggregation: \<open>$match\<close> on supplier and status approved, then one \<open>$group\<close>
      summing \<open>amount - ifNull(total_paid, 0)\<close>; no matching loan gives no group.\<close>
  "totalRemaining supplierId loans =
     (let matched = filter (\<lambda>l. loan_supplier l = supplierId \<and> status l = LoanApproved) loans
      in if matched = [] then []
         else [sum_list (map (\<lambda>l. amount l - total_paid l) matched)])"

definition findByIdAndUpdate_balance ::
  "nat \<Rightarrow> real \<Rightarrow> (nat \<rightharpoonup> supplier) \<Rightarrow> (nat \<rightharpoonup> supplier)" where
  \<comment> \<open>\<open>Supplier.findByIdAndUpdate(id, {current_balance: v})\<close>: no document, no write.\<close>
  "findByIdAndUpdate_balance supplierId v suppliers =
     (case suppliers supplierId of
        None \<Rightarrow> suppliers
      | Some s \<Rightarrow> suppliers(supplierId \<mapsto> s\<lparr>current_balance := v\<rparr>))"

definition recalculateSupplierBalance ::
  "nat \<Rightarrow> loan list \<Rightarrow> (nat \<rightharpoonup> supplier) \<Rightarrow> real \<times> (nat \<rightharpoonup> supplier)" where
  "recalculateSupplierBalance supplierId loans suppliers =
     (let loanBalances = totalRemaining supplierId loans;
          currentBalance = (if length loanBalances > 0 then hd loanBalances else 0)
      in (currentBalance, findByIdAndUpdate_balance supplierId currentBalance suppliers))"

section \<open>Transactions (models/Transaction.js)\<close>

record transaction =
  txn_id :: nat
  txn_supplier :: nat
  txn_status :: txn_status
  quantity :: real
  less_kilo :: real
  total_kilo :: real
  unit_price :: real
  total_price :: real
  total_amount :: real
  loan_deduction :: real
  amount_after_deduction :: "real option"
  paid_amount :: real
  loan_payments :: "(nat \<times> real) list"

text \<open>
  An entry of \<open>loan_payments\<close> is the pair \<open>{loan, amount}\<close>. The store that the hooks
  and handlers below work on is the pair of the loans and the LoanPayments. The
  credit-score and balance steps that close the post-save hook of a transaction write
  other collections; they are \<open>update_credit_score\<close> and \<open>recalculateSupplierBalance\<close>.
\<close>

definition transaction_pre_save :: "bool \<Rightarrow> transaction \<Rightarrow> transaction" where
  \<comment> \<open>\<open>transactionSchema.pre('save')\<close>; \<open>isNew\<close> also stands for the quantities being
      modified, which the handlers below do on the new document only.\<close>
  "transaction_pre_save isNew t =
     (let t1 = (if isNew
                then (let total_kilo' = quantity t - less_kilo t;
                          total_price' = total_kilo' * unit_price t
                      in t\<lparr>total_kilo := total_kilo', total_price := total_price',
                           total_amount := total_price'\<rparr>)
                else t);
          t2 = (if isNew \<or> falsy (amount_after_deduction t1)
                then t1\<lparr>amount_after_deduction := Some (total_amount t1)\<rparr> else t1)
      in if isNew then t2\<lparr>paid_amount := 0\<rparr> else t2)"

subsection \<open>Auto-debit in \<open>transactionSchema.post('save')\<close>\<close>

definition outstanding :: "nat \<Rightarrow> loan \<Rightarrow> bool" where
  \<comment> \<open>The query, which the database answers on the stored loans: supplier, status
      approved, \<open>$expr: $lt [total_paid, total_amount_with_interest]\<close>; a missing field
      is null, and no number is below null.\<close>
  "outstanding supplierId l =
     (loan_supplier l = supplierId \<and> status l = LoanApproved \<and>
      (case total_amount_with_interest l of None \<Rightarrow> False | Some w \<Rightarrow> total_paid l < w))"

definition find_outstandingLoans :: "nat \<Rightarrow> loan list \<Rightarrow> loan list" where
  \<comment> \<open>The documents of the loans the query selects, oldest first.\<close>
  "find_outstandingLoans supplierId loans =
     map hydrate (sort_key createdAt (filter (outstanding supplierId) loans))"

definition loanRemainingAmount :: "loan \<Rightarrow> real" where
  \<comment> \<open>\<open>(loan.total_amount_with_interest || loan.amount) - (loan.total_paid || 0)\<close> on the
      document of the loan.\<close>
  "loanRemainingAmount l =
     js_or (total_amount_with_interest (hydrate l)) (amount l) - total_paid l"

definition apply_deduction :: "nat \<Rightarrow> real \<Rightarrow> loan \<Rightarrow> loan" where
  \<comment> \<open>"Update loan record" up to \<open>loan.save()\<close>, for the document of one loan and its
      \<open>currentDeduction\<close>.\<close>
  "apply_deduction now currentDeduction l =
     (let l1 = (hydrate l)\<lparr>total_paid := total_paid l + currentDeduction\<rparr>;
          interestRemaining =
            js_or (total_amount_with_interest l1) (amount l1) - amount l1 - js_or (interest_paid l1) 0;
          l2 = (if interestRemaining > 0
                then (let interestPayment = min currentDeduction interestRemaining;
                          l' = l1\<lparr>interest_paid := Some (js_or (interest_paid l1) 0 + interestPayment)\<rparr>;
                          principalPayment = currentDeduction - interestPayment
                      in l'\<lparr>principal_paid := Some (js_or (principal_paid l') 0 + principalPayment)\<rparr>)
                else l1\<lparr>principal_paid := Some (js_or (principal_paid l1) 0 + currentDeduction)\<rparr>)
      in if total_paid l2 \<ge> js_or (total_amount_with_interest l2) (amount l2)
         then l2\<lparr>status := LoanPaid, completionDate := Some now\<rparr>
         else l2)"

record debit_state =
  remainingDeduction :: real
  totalDeduction :: real
  loanPaymentsArray :: "(nat \<times> real) list"

definition auto_debit_payment :: "nat \<Rightarrow> nat \<Rightarrow> real \<Rightarrow> loan_payment" where
  "auto_debit_payment tid lid amt =
     \<lparr>pay_loan = lid, pay_transaction = Some tid, pay_amount = amt, payment_method = ''auto-debit''\<rparr>"

fun debit_loop ::
  "nat \<Rightarrow> nat \<Rightarrow> loan list \<Rightarrow> debit_state \<Rightarrow> loan list \<times> loan_payment list \<Rightarrow>
   debit_state \<times> (loan list \<times> loan_payment list)" where
  \<comment> \<open>\<open>for (const loan of outstandingLoans)\<close>: the counters and the store after the loop.
      Each round saves the loan and then the LoanPayment, whose post-save hook loads the
      stored loan and applies the same amount to it again.\<close>
  "debit_loop now tid [] s db = (s, db)"
| "debit_loop now tid (l # ls) s db =
     (if remainingDeduction s \<le> 0 then (s, db)
      else (let currentDeduction = min (remainingDeduction s) (loanRemainingAmount l)
            in if currentDeduction > 0
               then (let l' = apply_deduction now currentDeduction l;
                         db1 = (Loan_save now l' (fst db), snd db);
                         db2 = LoanPayment_save now
                                 (auto_debit_payment tid (loan_id l) currentDeduction) db1;
                         s' = s\<lparr>remainingDeduction := remainingDeduction s - currentDeduction,
                                 totalDeduction := totalDeduction s + currentDeduction,
                                 loanPaymentsArray :=
                                   loanPaymentsArray s @ [(loan_id l, currentDeduction)]\<rparr>
                     in debit_loop now tid ls s' db2)
               else debit_loop now tid ls s db))"

definition transaction_post_save ::
  "nat \<Rightarrow> transaction \<Rightarrow> loan list \<times> loan_payment list \<Rightarrow>
   transaction \<times> (loan list \<times> loan_payment list)" where
  \<comment> \<open>The auto-debit part of the hook: the transaction (the document and, by
      \<open>findByIdAndUpdate\<close>, the stored one) and the store afterwards.\<close>
  "transaction_post_save now t db =
     (if txn_status t = TxnCompleted
      then (let outstandingLoans = find_outstandingLoans (txn_supplier t) (fst db)
            in if length outstandingLoans > 0
               then (let maxDeductionAmount = total_amount t * 0.4;
                         r = debit_loop now (txn_id t) outstandingLoans
                               \<lparr>remainingDeduction = maxDeductionAmount, totalDeduction = 0,
                                loanPaymentsArray = []\<rparr> db;
                         s = fst r
                     in (t\<lparr>loan_deduction := totalDeduction s,
                           amount_after_deduction := Some (total_amount t - totalDeduction s),
                           paid_amount := total_amount t - totalDeduction s,
                           loan_payments := loanPaymentsArray s\<rparr>,
                         snd r))
               else (t\<lparr>amount_after_deduction := Some (total_amount t),
                        paid_amount := total_amount t\<rparr>, db))
      else (t, db))"

definition Transaction_save ::
  "bool \<Rightarrow> nat \<Rightarrow> transaction \<Rightarrow> loan list \<times> loan_payment list \<Rightarrow>
   transaction \<times> (loan list \<times> loan_payment list)" where
  \<comment> \<open>\<open>transaction.save()\<close>: the pre-save hook, the write, the post-save hook.\<close>
  "Transaction_save isNew now t db = transaction_post_save now (transaction_pre_save isNew t) db"

subsection \<open>Auto-debit in the route \<open>POST /transactions\<close> (routes/transaction.routes.js)\<close>

definition find_approvedLoans :: "nat \<Rightarrow> loan list \<Rightarrow> loan list" where
  "find_approvedLoans supplierId loans =
     sort_key createdAt (filter (\<lambda>l. loan_supplier l = supplierId \<and> status l = LoanApproved) loans)"

definition route_auto_debit ::
  "nat \<Rightarrow> transaction \<Rightarrow> loan list \<Rightarrow> transaction \<times> loan list \<times> loan_payment list" where
  \<comment> \<open>From "Find any approved loans for this supplier" to the end of the handler, the
      handler's own statements only: the transaction, the loan and the LoanPayment with
      the values the handler assigns before it calls \<open>save\<close> on them. What the hooks of
      those saves then store is \<open>post_transaction_stored\<close>.\<close>
  "route_auto_debit now t db =
     (let loans = find_approvedLoans (txn_supplier t) db
      in if length loans > 0
         then (let loan = hd loans;
                   remainingLoanAmount = amount loan - total_paid loan;
                   deductionAmount = min (total_price t) remainingLoanAmount
               in if deductionAmount > 0
                  then (let t' = t\<lparr>loan_deduction := deductionAmount,
                                   amount_after_deduction := Some (total_price t - deductionAmount),
                                   paid_amount := total_price t - deductionAmount,
                                   loan_payments := [(loan_id loan, deductionAmount)]\<rparr>;
                            payment = auto_debit_payment (txn_id t) (loan_id loan) deductionAmount;
                            l1 = loan\<lparr>total_paid := total_paid loan + deductionAmount,
                                      lastPaymentDate := Some now\<rparr>;
                            l2 = (if total_paid l1 \<ge> amount l1
                                  then l1\<lparr>status := LoanPaid, completionDate := Some now\<rparr>
                                  else l1)
                        in (t', [l2], [payment]))
                  else (t, [], []))
         else (t\<lparr>loan_deduction := 0, amount_after_deduction := Some (total_price t),
                  paid_amount := total_price t\<rparr>, [], []))"

definition new_transaction :: "nat \<Rightarrow> nat \<Rightarrow> real \<Rightarrow> real \<Rightarrow> real \<Rightarrow> transaction" where
  \<comment> \<open>The document the route builds from the request body (status defaults to completed).\<close>
  "new_transaction tid supplierId qty lessk price =
     (let total_kilo' = qty - lessk; total_price' = total_kilo' * price
      in \<lparr>txn_id = tid, txn_supplier = supplierId, txn_status = TxnCompleted, quantity = qty,
          less_kilo = lessk, total_kilo = total_kilo', unit_price = price,
          total_price = total_price', total_amount = total_price', loan_deduction = 0,
          amount_after_deduction = None, paid_amount = 0, loan_payments = []\<rparr>)"

definition post_transaction ::
  "nat \<Rightarrow> nat \<Rightarrow> nat \<Rightarrow> real \<Rightarrow> real \<Rightarrow> real \<Rightarrow> loan list \<Rightarrow>
   route_error + (transaction \<times> loan list \<times> loan_payment list)" where
  \<comment> \<open>\<open>transactionRouter.post('/')\<close>: the 400 reply for a missing (or zero) quantity or
      unit price, or the handler's own auto-debit on the new document.\<close>
  "post_transaction now tid supplierId qty lessk price db =
     (if qty = 0 \<or> price = 0 then Inl Status400
      else Inr (route_auto_debit now (new_transaction tid supplierId qty lessk price) db))"

definition route_loan_save :: "loan \<Rightarrow> loan list \<Rightarrow> loan list" where
  \<comment> \<open>The handler's closing \<open>loan.save()\<close>. Its document was loaded before the
      LoanPayment hook wrote the loan, so the write carries the paths the handler
      assigned: \<open>total_paid\<close>, \<open>lastPaymentDate\<close>, and the status with the completion date
      when the handler marked the loan paid (the pre-save hook then finds nothing to do).\<close>
  "route_loan_save d loans =
     map (\<lambda>s. if loan_id s = loan_id d
              then (let s1 = s\<lparr>total_paid := total_paid d, lastPaymentDate := lastPaymentDate d\<rparr>
                    in if status d = LoanPaid
                       then s1\<lparr>status := LoanPaid, completionDate := completionDate d\<rparr>
                       else s1)
              else s) loans"

definition post_transaction_stored ::
  "nat \<Rightarrow> nat \<Rightarrow> nat \<Rightarrow> real \<Rightarrow> real \<Rightarrow> real \<Rightarrow> loan list \<times> loan_payment list \<Rightarrow>
   route_error + (transaction \<times> (loan list \<times> loan_payment list))" where
  \<comment> \<open>\<open>transactionRouter.post('/')\<close> with the hooks that its saves fire, in the
      handler's order: the stored transaction and the store at the reply.\<close>
  "post_transaction_stored now tid supplierId qty lessk price db =
     (if qty = 0 \<or> price = 0 then Inl Status400
      else (let r1 = Transaction_save True now (new_transaction tid supplierId qty lessk price) db;
                t1 = fst r1; db1 = snd r1;
                total_price' = (qty - lessk) * price;
                loans = map hydrate (find_approvedLoans supplierId (fst db1))
            in if length loans > 0
               then (let loan = hd loans;
                         remainingLoanAmount = amount loan - total_paid loan;
                         deductionAmount = min total_price' remainingLoanAmount
                     in if deductionAmount > 0
                        then (let t2 = t1\<lparr>loan_deduction := deductionAmount,
                                         amount_after_deduction := Some (total_price' - deductionAmount),
                                         paid_amount := total_price' - deductionAmount,
                                         loan_payments := [(loan_id loan, deductionAmount)]\<rparr>;
                                  r2 = Transaction_save False now t2 db1;
                                  db3 = LoanPayment_save now
                                          (auto_debit_payment tid (loan_id loan) deductionAmount) (snd r2);
                                  l1 = loan\<lparr>total_paid := total_paid loan + deductionAmount,
                                            lastPaymentDate := Some now\<rparr>;
                                  l2 = (if total_paid l1 \<ge> amount l1
                                        then l1\<lparr>status := LoanPaid, completionDate := Some now\<rparr>
                                        else l1)
                              in Inr (fst r2, (route_loan_save l2 (fst db3), snd db3)))
                        else Inr (t1, db1))
               else Inr (Transaction_save False now
                           (t1\<lparr>loan_deduction := 0, amount_after_deduction := Some total_price',
                               paid_amount := total_price'\<rparr>) db1)))"

subsection \<open>Reversal in \<open>PATCH /transactions/:id/cancel\<close> and \<open>/void\<close>\<close>

definition reverse_payment :: "real \<Rightarrow> loan \<Rightarrow> loan" where
  \<comment> \<open>"Reverse the payment" up to \<open>loan.save\<close>, for one entry of \<open>loan_payments\<close>.\<close>
  "reverse_payment amt l =
     (let l1 = l\<lparr>total_paid := total_paid l - amt\<rparr>
      in if status l1 = LoanPaid \<and> total_paid l1 < amount l1
         then l1\<lparr>status := LoanApproved, completionDate := None\<rparr>
         else l1)"




section \<open>Credit score and loan eligibility\<close>

record credit_score =
  cs_supplier :: nat
  score :: real
  transaction_consistency :: real
  total_supply_score :: real
  transaction_count_score :: real
  eligible_amount :: real
  transaction_count :: nat
  credit_percentage :: real
  average_transaction :: real

definition new_CreditScore :: "nat \<Rightarrow> real \<Rightarrow> credit_score" where
  \<comment> \<open>\<open>new CreditScore({supplier, score})\<close> with the schema defaults (models/CreditScore.js).\<close>
  "new_CreditScore supplierId sc =
     \<lparr>cs_supplier = supplierId, score = sc, transaction_consistency = 0, total_supply_score = 0,
      transaction_count_score = 0, eligible_amount = 0, transaction_count = 0,
      credit_percentage = 0.2, average_transaction = 0\<rparr>"

fun Math_min :: "real list \<Rightarrow> real" where
  \<comment> \<open>\<open>Math.min(...amounts)\<close>; the hook calls it on two amounts or more (the empty case,
      Infinity in JavaScript, is not reached).\<close>
  "Math_min [] = 0"
| "Math_min (x # xs) = fold min xs x"

fun Math_max :: "real list \<Rightarrow> real" where
  "Math_max [] = 0"
| "Math_max (x # xs) = fold max xs x"

definition creditPercentage_of :: "real \<Rightarrow> real" where
  \<comment> \<open>"Determine credit percentage based on score".\<close>
  "creditPercentage_of finalScore =
     (if finalScore \<ge> 80 then 0.6
      else if finalScore \<ge> 60 then 0.5
      else if finalScore \<ge> 40 then 0.4
      else if finalScore > 30 then 0.3
      else if finalScore \<ge> 20 then 0.15
      else 0)"

definition update_credit_score ::
  "transaction \<Rightarrow> transaction list \<Rightarrow> credit_score option \<Rightarrow> credit_score option" where
  \<comment> \<open>The credit-score part of \<open>transactionSchema.post('save')\<close>: \<open>this\<close>, the stored
      transactions, the supplier's stored CreditScore (if any); the result is the stored
      CreditScore afterwards. The ratios are as written; a largest amount of 0 is NaN in
      JavaScript and outside this model.\<close>
  "update_credit_score this txns found =
     (let supplierTransactions =
            filter (\<lambda>t. txn_supplier t = txn_supplier this \<and> txn_status t = TxnCompleted) txns
      in if length supplierTransactions < 2
         then (case found of
                 None \<Rightarrow> Some ((new_CreditScore (txn_supplier this) 20)
                            \<lparr>transaction_count := 1,
                             eligible_amount := total_amount this * 0.15,
                             average_transaction := total_amount this,
                             credit_percentage := 0.15\<rparr>)
               | Some initialScore \<Rightarrow> Some initialScore)
         else (let amounts = map total_amount supplierTransactions;
                   smallestTransaction = Math_min amounts;
                   largestTransaction = Math_max amounts;
                   transactionConsistency = (smallestTransaction / largestTransaction) * 100;
                   totalSupplied = fold (\<lambda>t sum. sum + total_amount t) supplierTransactions 0;
                   maxPossibleSupply = largestTransaction * real (length supplierTransactions);
                   totalSupplyScore = (totalSupplied / maxPossibleSupply) * 100;
                   idealTransactionCycle = 10;
                   transactionCountScore =
                     min 100 ((real (length supplierTransactions) / idealTransactionCycle) * 100);
                   finalScore = (transactionConsistency + totalSupplyScore + transactionCountScore) / 3;
                   averageTransaction = totalSupplied / real (length supplierTransactions);
                   creditPercentage = creditPercentage_of finalScore;
                   eligibleAmount = Math_round (averageTransaction * creditPercentage);
                   creditScore = (case found of
                                    None \<Rightarrow> new_CreditScore (txn_supplier this) (Math_round finalScore)
                                  | Some c \<Rightarrow> c)
               in Some (creditScore
                    \<lparr>score := Math_round finalScore,
                     transaction_consistency := Math_round transactionConsistency,
                     total_supply_score := Math_round totalSupplyScore,
                     transaction_count_score := Math_round transactionCountScore,
                     eligible_amount := eligibleAmount,
                     transaction_count := length supplierTransactions,
                     average_transaction := averageTransaction,
                     credit_percentage := creditPercentage\<rparr>)))"

record eligibility =
  eligible :: bool
  limit :: real
  elig_score :: "real option"
  elig_average_transaction :: "real option"
  elig_transaction_count :: "nat option"

definition checkLoanEligibility :: "nat \<Rightarrow> real \<Rightarrow> transaction list \<Rightarrow> eligibility" where
  \<comment> \<open>routes/loan.routes.js. \<open>t.total_amount || t.totalAmount || t.amount || 0\<close> is
      \<open>total_amount\<close>: the schema has no other of these fields.\<close>
  "checkLoanEligibility supplierId requestedAmount txns =
     (let transactions =
            filter (\<lambda>t. txn_supplier t = supplierId \<and> txn_status t = TxnCompleted) txns;
          transactionCount = length transactions
      in if transactionCount = 0
         then \<lparr>eligible = False, limit = 0, elig_score = None,
               elig_average_transaction = None, elig_transaction_count = None\<rparr>
         else (let totalAmount = fold (\<lambda>t sum. sum + total_amount t) transactions 0;
                   averageTransaction = totalAmount / real transactionCount;
                   creditPercentage = 0.40;
                   loanLimit = Math_round (averageTransaction * creditPercentage)
               in \<lparr>eligible = True, limit = loanLimit, elig_score = Some 0,
                   elig_average_transaction = Some averageTransaction,
                   elig_transaction_count = Some transactionCount\<rparr>))"

definition create_loan ::
  "nat \<Rightarrow> nat \<Rightarrow> nat \<Rightarrow> real \<Rightarrow> real \<Rightarrow> transaction list \<Rightarrow> route_error + loan" where
  \<comment> \<open>\<open>loanRouter.post('/')\<close>: the 400 reply, or the loan saved. \<open>new Loan\<close> keeps the
      schema's paths of what the handler passes.\<close>
  "create_loan now lid supplier_id amt rate txns =
     (let eligibility = checkLoanEligibility supplier_id amt txns
      in if \<not> eligible eligibility \<or> limit eligibility \<le> 0 then Inl Status400
         else (let interestAmount = amt * (rate / 100);
                   totalAmountWithInterest = amt + interestAmount
               in Inr (hydrate
                       \<lparr>loan_id = lid, loan_supplier = supplier_id, amount = amt,
                        interest_rate = Some rate,
                        total_amount_with_interest = Some totalAmountWithInterest,
                        total_paid = 0, principal_paid = Some 0, interest_paid = Some 0,
                        status = LoanPending, completionDate = None, lastPaymentDate = None,
                        createdAt = now\<rparr>)))"

section \<open>The specification's notions\<close>



definition from_schema :: "loan \<Rightarrow> bool" where
  \<comment> \<open>A loan as the program stores it: written through \<open>LoanSchema\<close>.\<close>
  "from_schema l = (hydrate l = l)"

section \<open>Example documents\<close>

text \<open>
  The example loans are written with the interest fields that the route passes to
  \<open>new Loan\<close>. A collection holds a loan in that form only when it was written outside
  the schema; \<open>hydrate\<close> of an example is the same loan as the program stores it.
\<close>

definition scenario_loan :: loan where
  \<comment> \<open>An approved loan of 1000 at 10 percent, nothing paid.\<close>
  "scenario_loan =
     \<lparr>loan_id = 1, loan_supplier = 7, amount = 1000, interest_rate = Some 10,
      total_amount_with_interest = Some 1100, total_paid = 0, principal_paid = Some 0,
      interest_paid = Some 0, status = LoanApproved, completionDate = None,
      lastPaymentDate = None, createdAt = 1\<rparr>"

definition plain_loan :: loan where
  \<comment> \<open>An approved loan of 5000 with the fields of the Loan schema only.\<close>
  "plain_loan =
     \<lparr>loan_id = 2, loan_supplier = 7, amount = 5000, interest_rate = None,
      total_amount_with_interest = None, total_paid = 0, principal_paid = None,
      interest_paid = None, status = LoanApproved, completionDate = None,
      lastPaymentDate = None, createdAt = 2\<rparr>"

definition old_loan :: loan where
  \<comment> \<open>An approved loan of 100 at 10 percent, created first.\<close>
  "old_loan =
     \<lparr>loan_id = 3, loan_supplier = 7, amount = 100, interest_rate = Some 10,
      total_amount_with_interest = Some 110, total_paid = 0, principal_paid = Some 0,
      interest_paid = Some 0, status = LoanApproved, completionDate = None,
      lastPaymentDate = None, createdAt = 1\<rparr>"

definition new_loan :: loan where
  \<comment> \<open>An approved loan of 500 at 10 percent, created second.\<close>
  "new_loan =
     \<lparr>loan_id = 4, loan_supplier = 7, amount = 500, interest_rate = Some 10,
      total_amount_with_interest = Some 550, total_paid = 0, principal_paid = Some 0,
      interest_paid = Some 0, status = LoanApproved, completionDate = None,
      lastPaymentDate = None, createdAt = 2\<rparr>"

definition scenario_supplier :: supplier where
  "scenario_supplier = \<lparr>current_balance = 0, is_active = True\<rparr>"

definition scenario_txn :: transaction where
  \<comment> \<open>A completed purchase of 100 kilo at 20: total amount 2000.\<close>
  "scenario_txn = new_transaction 50 7 100 0 20"

definition small_txn :: transaction where
  \<comment> \<open>A completed purchase of 25 kilo at 20: total amount 500.\<close>
  "small_txn = new_transaction 51 7 25 0 20"

definition thousand_txn :: "nat \<Rightarrow> transaction" where
  \<comment> \<open>A completed purchase of 50 kilo at 20: total amount 1000.\<close>
  "thousand_txn tid = new_transaction tid 7 50 0 20"

section \<open>Results\<close>

lemmas docs =
  scenario_loan_def plain_loan_def old_loan_def new_loan_def scenario_supplier_def
  scenario_txn_def small_txn_def thousand_txn_def new_transaction_def

lemmas route_eval =
  post_transaction_stored_def Transaction_save_def transaction_pre_save_def
  transaction_post_save_def find_outstandingLoans_def outstanding_def find_approvedLoans_def
  hydrate_def LoanPayment_save_def Loan_save_def loan_payment_post_save_def persist_def
  loan_pre_save_def route_loan_save_def auto_debit_payment_def falsy_def js_or_def Let_def

lemmas hook_eval =
  transaction_post_save_def find_outstandingLoans_def outstanding_def loanRemainingAmount_def
  apply_deduction_def hydrate_def LoanPayment_save_def Loan_save_def loan_payment_post_save_def
  persist_def loan_pre_save_def auto_debit_payment_def falsy_def js_or_def Let_def

lemmas payment_eval =
  post_loan_payment_def Loan_findById_def manual_payment_def hydrate_def LoanPayment_save_def
  Loan_save_def loan_payment_post_save_def persist_def loan_pre_save_def falsy_def js_or_def
  Let_def

subsection \<open>Loans as the schema stores them\<close>



lemma from_schema_hydrate: "from_schema (hydrate l)"
  by (simp add: from_schema_def hydrate_def)


lemma created_loan_from_schema:
  "create_loan now lid sid amt rate txns = Inr l \<Longrightarrow> from_schema l"
  by (auto simp add: create_loan_def Let_def from_schema_hydrate split: if_splits)










subsection \<open>What a LoanPayment stores\<close>











subsection \<open>The route that creates transactions\<close>








subsection \<open>Reversal\<close>








subsection \<open>The allocator of the post-save hook\<close>

text \<open>
  The counters of the loop: what is deducted and what is left always add up to the
  budget, and the budget left never goes below zero. So the hook, where it finds
  outstanding loans, records at most 40 percent of the transaction as the deduction.
  Such loans hold a \<open>total_amount_with_interest\<close> written outside the schema; for two of
  them and a purchase of 1000 the hook records 100 and 300, and the stored loans grow by
  200 and 600, because the hook of each LoanPayment the loop saves applies the amount to
  the stored loan a second time.
\<close>

lemma debit_loop_budget:
  "0 \<le> remainingDeduction s \<Longrightarrow>
   totalDeduction (fst (debit_loop now tid ls s db)) + remainingDeduction (fst (debit_loop now tid ls s db)) =
     totalDeduction s + remainingDeduction s
   \<and> 0 \<le> remainingDeduction (fst (debit_loop now tid ls s db))"
proof (induction ls arbitrary: s db)
  case Nil
  then show ?case by simp
next
  case (Cons l ls)
  let ?d = "min (remainingDeduction s) (loanRemainingAmount l)"
  let ?s' = "s\<lparr>remainingDeduction := remainingDeduction s - ?d,
                totalDeduction := totalDeduction s + ?d,
                loanPaymentsArray := loanPaymentsArray s @ [(loan_id l, ?d)]\<rparr>"
  let ?db' = "LoanPayment_save now (auto_debit_payment tid (loan_id l) ?d)
                (Loan_save now (apply_deduction now ?d l) (fst db), snd db)"
  consider (stop) "remainingDeduction s \<le> 0"
    | (debit) "\<not> remainingDeduction s \<le> 0" "0 < ?d"
    | (skip) "\<not> remainingDeduction s \<le> 0" "\<not> 0 < ?d"
    by blast
  then show ?case
  proof cases
    case stop
    with Cons.prems show ?thesis by simp
  next
    case debit
    have "0 \<le> remainingDeduction ?s'" by simp
    from Cons.IH [OF this, of ?db'] have
      "totalDeduction (fst (debit_loop now tid ls ?s' ?db')) + remainingDeduction (fst (debit_loop now tid ls ?s' ?db')) =
         totalDeduction s + remainingDeduction s"
      "0 \<le> remainingDeduction (fst (debit_loop now tid ls ?s' ?db'))"
      by simp_all
    moreover have "debit_loop now tid (l # ls) s db = debit_loop now tid ls ?s' ?db'"
      using debit by (simp add: Let_def)
    ultimately show ?thesis by simp
  next
    case skip
    have "debit_loop now tid (l # ls) s db = debit_loop now tid ls s db"
      using skip by (simp add: Let_def)
    with Cons.IH [OF Cons.prems, of db] show ?thesis by simp
  qed
qed

lemma hook_deduction_ceiling:
  assumes "txn_status t = TxnCompleted" and "0 \<le> total_amount t"
      and "find_outstandingLoans (txn_supplier t) (fst db) \<noteq> []"
  shows "loan_deduction (fst (transaction_post_save now t db)) \<le> 0.40 * total_amount t
       \<and> amount_after_deduction (fst (transaction_post_save now t db)) =
           Some (total_amount t - loan_deduction (fst (transaction_post_save now t db)))"
proof -
  let ?s = "\<lparr>remainingDeduction = total_amount t * 0.4, totalDeduction = 0,
             loanPaymentsArray = []\<rparr>"
  have "0 \<le> remainingDeduction ?s" using assms(2) by simp
  from debit_loop_budget [OF this, of now "txn_id t" "find_outstandingLoans (txn_supplier t) (fst db)" db]
  have "totalDeduction (fst (debit_loop now (txn_id t) (find_outstandingLoans (txn_supplier t) (fst db)) ?s db))
          \<le> total_amount t * 0.4"
    by simp
  with assms(1,3) show ?thesis
    by (simp add: transaction_post_save_def Let_def)
qed

lemma hook_double_count:
  "transaction_post_save 9 (thousand_txn 1) ([new_loan, old_loan], []) =
     ((thousand_txn 1)\<lparr>loan_deduction := 400, amount_after_deduction := Some 600,
                        paid_amount := 600, loan_payments := [(3, 100), (4, 300)]\<rparr>,
      ([new_loan\<lparr>total_paid := 600, status := LoanPaid, completionDate := Some 9,
                 lastPaymentDate := Some 9\<rparr>,
        old_loan\<lparr>total_paid := 200, status := LoanPaid, completionDate := Some 9,
                 lastPaymentDate := Some 9\<rparr>],
       [auto_debit_payment 1 3 100, auto_debit_payment 1 4 300]))"
  by (simp add: hook_eval docs)

subsection \<open>Supplier balance\<close>

lemma totalRemaining_sum:
  "(if length (totalRemaining sid loans) > 0 then hd (totalRemaining sid loans) else 0) =
   sum_list (map (\<lambda>l. amount l - total_paid l)
     (filter (\<lambda>l. loan_supplier l = sid \<and> status l = LoanApproved) loans))"
  by (simp add: totalRemaining_def Let_def)

subsection \<open>The claims\<close>

text \<open>
  C1. The ceiling of 40 percent does not hold for the route that creates transactions:
  for a purchase of 1000 by a supplier with one approved loan of 5000, the handler's own
  auto-debit takes the whole 1000 and assigns 0 as the amount after deduction. What is
  stored at the reply, after the hooks of the handler's saves, is the deduction of 1000
  with 1000 as the amount after deduction and as the paid amount: neither the ceiling
  nor the difference \<open>total - deduction\<close>. (The post-save hook has the ceiling where
  it debits, see \<open>hook_deduction_ceiling\<close>.)
\<close>

theorem route_deduction_exceeds_ceiling:
  "post_transaction 9 1 7 50 0 20 [plain_loan] =
     Inr ((thousand_txn 1)\<lparr>loan_deduction := 1000, amount_after_deduction := Some 0,
                           paid_amount := 0, loan_payments := [(2, 1000)]\<rparr>,
          [plain_loan\<lparr>total_paid := 1000, lastPaymentDate := Some 9\<rparr>],
          [auto_debit_payment 1 2 1000])
   \<and> total_amount (thousand_txn 1) = 1000
   \<and> \<not> (1000::real) \<le> 0.40 * total_amount (thousand_txn 1)
   \<and> post_transaction_stored 9 1 7 50 0 20 ([plain_loan], []) =
     Inr ((thousand_txn 1)\<lparr>loan_deduction := 1000, amount_after_deduction := Some 1000,
                           paid_amount := 1000, loan_payments := [(2, 1000)]\<rparr>,
          ([plain_loan\<lparr>total_paid := 1000, lastPaymentDate := Some 9\<rparr>],
           [auto_debit_payment 1 2 1000]))"
  by (simp add: post_transaction_def route_auto_debit_def route_eval docs)






text \<open>
  C4. The split is not interest first. The loan of 1000 requested at 10 percent is stored
  without its total of 1100; a manual payment of 800 on it puts 0 on \<open>interest_paid\<close> and
  800 on \<open>principal_paid\<close> in the document of the hook, where the claim has 100 and 700,
  and the stored loan gains 800 of \<open>total_paid\<close> and neither portion. By
  \<open>loan_payment_post_save_eq\<close> the interest portion is 0 for every stored loan and payment.
\<close>

theorem payment_split_not_interest_first:
  "post_loan_payment 9 1 800 ([hydrate scenario_loan], []) =
     Inr ([(hydrate scenario_loan)\<lparr>total_paid := 800, lastPaymentDate := Some 9\<rparr>],
          [manual_payment 1 800])
   \<and> interest_paid (loan_payment_post_save 9 800 (hydrate scenario_loan)) = Some 0
   \<and> principal_paid (loan_payment_post_save 9 800 (hydrate scenario_loan)) = Some 800
   \<and> interest_paid ((hydrate scenario_loan)\<lparr>total_paid := 800, lastPaymentDate := Some 9\<rparr>) = None
   \<and> principal_paid ((hydrate scenario_loan)\<lparr>total_paid := 800, lastPaymentDate := Some 9\<rparr>) = None
   \<and> min 800 (max (amount scenario_loan + amount scenario_loan * (10 / 100)
                     - amount scenario_loan - 0) 0) = (100::real)"
  by (simp add: payment_eval docs)

text \<open>
  C5. No allocator walks the loans. A supplier has two approved loans stored through the
  schema, of 100 (created first) and of 500, and sells for 1000. The query of the
  post-save hook selects neither loan. The route debits the older loan by 100, which
  pays it, and stops: the newer loan stays at \<open>total_paid = 0\<close>, where the claim gives it
  the leftover of the budget, 0.40 * 1000 - 100 = 300.
\<close>

theorem route_debits_oldest_loan_only:
  "find_outstandingLoans 7 [hydrate new_loan, hydrate old_loan] = []
   \<and> post_transaction_stored 9 1 7 50 0 20 ([hydrate new_loan, hydrate old_loan], []) =
     Inr ((thousand_txn 1)\<lparr>loan_deduction := 100, amount_after_deduction := Some 1000,
                           paid_amount := 1000, loan_payments := [(3, 100)]\<rparr>,
          ([hydrate new_loan,
            (hydrate old_loan)\<lparr>total_paid := 100, status := LoanPaid, completionDate := Some 9,
                                lastPaymentDate := Some 9\<rparr>],
           [auto_debit_payment 1 3 100]))
   \<and> total_paid (hydrate new_loan) = 0
   \<and> 0.40 * total_amount (thousand_txn 1) - (amount old_loan - total_paid old_loan) = 300"
  by (simp add: route_eval docs)

text \<open>
  C6. The credit percentage the hook stores is not fixed at 0.40. After a second completed
  purchase of 1000 (the first was 1000 too) the three sub-scores are 100, 100 and 20, the
  score is 73, their rounded mean, and the hook stores the percentage of the band from 60
  up, 0.5, and an eligible amount of 500, where 40 percent of the average is 400.
\<close>

theorem hook_credit_percentage_by_band:
  "update_credit_score (thousand_txn 2) [thousand_txn 1, thousand_txn 2] None =
     Some \<lparr>cs_supplier = 7, score = 73, transaction_consistency = 100,
            total_supply_score = 100, transaction_count_score = 20,
            eligible_amount = 500, transaction_count = 2,
            credit_percentage = 0.5, average_transaction = 1000\<rparr>
   \<and> Math_round ((100 + 100 + 20) / 3) = 73
   \<and> Math_round (1000 * 0.40) = 400"
  by (simp add: update_credit_score_def docs Let_def new_CreditScore_def creditPercentage_of_def
      Math_round_def)

text \<open>
  C7. For a supplier's first completed purchase, of 500, the hook stores the score 20 with
  a percentage of 0.15 and an eligible amount of 75, and leaves the three sub-scores at
  their default 0; \<open>checkLoanEligibility\<close> takes 40 percent, a limit of 200, and reports
  the score 0.
\<close>

theorem hook_initial_score_fifteen_percent:
  "update_credit_score small_txn [small_txn] None =
     Some \<lparr>cs_supplier = 7, score = 20, transaction_consistency = 0,
            total_supply_score = 0, transaction_count_score = 0,
            eligible_amount = 75, transaction_count = 1,
            credit_percentage = 0.15, average_transaction = 500\<rparr>
   \<and> checkLoanEligibility 7 100 [small_txn] =
       \<lparr>eligible = True, limit = 200, elig_score = Some 0,
        elig_average_transaction = Some 500, elig_transaction_count = Some 1\<rparr>
   \<and> Math_round (total_amount small_txn * 0.40) = 200"
  by (simp add: update_credit_score_def checkLoanEligibility_def docs Let_def new_CreditScore_def
      Math_round_def)

text \<open>
  C8. The status follows the principal, not the total with interest. Saving the approved
  loan of 1000 at 10 percent with 1000 paid marks it paid, though 1100 is due; the hook of
  a LoanPayment of 1000 marks it paid as well, because the document of the loan does not
  show the total of 1100 and the hook takes the amount. And reversing a payment of 50 on
  that loan when it is paid in full (1100) leaves it paid with its completion date,
  though 1050 is below 1100.
\<close>

theorem paid_by_principal_only:
  "loan_pre_save 9 (scenario_loan\<lparr>total_paid := 1000\<rparr>) =
     scenario_loan\<lparr>total_paid := 1000, status := LoanPaid, completionDate := Some 9\<rparr>
   \<and> total_amount_with_interest scenario_loan = Some 1100
   \<and> status (loan_payment_post_save 9 1000 scenario_loan) = LoanPaid
   \<and> status (loan_pre_save 9 (loan_payment_post_save 9 1000 scenario_loan)) = LoanPaid
   \<and> reverse_payment 50
       (scenario_loan\<lparr>total_paid := 1100, status := LoanPaid, completionDate := Some 5\<rparr>) =
     scenario_loan\<lparr>total_paid := 1050, status := LoanPaid, completionDate := Some 5\<rparr>"
  by (simp add: loan_pre_save_def reverse_payment_def loan_payment_post_save_def hydrate_def
      falsy_def js_or_def docs Let_def)

text \<open>
  C9. The route that creates loans does not compare the requested amount with the limit.
  A supplier with one completed purchase of 500 has a limit of 200, and a request for
  10000 is answered with a pending loan of 10000 (stored without the interest fields the
  handler passes).
\<close>

theorem loan_above_limit_created:
  "limit (checkLoanEligibility 7 10000 [small_txn]) = 200
   \<and> create_loan 3 9 7 10000 10 [small_txn] =
       Inr \<lparr>loan_id = 9, loan_supplier = 7, amount = 10000,
            interest_rate = None, total_amount_with_interest = None,
            total_paid = 0, principal_paid = None, interest_paid = None,
            status = LoanPending, completionDate = None, lastPaymentDate = None,
            createdAt = 3\<rparr>"
  by (simp add: create_loan_def checkLoanEligibility_def hydrate_def docs Let_def Math_round_def)

theorem loan_above_limit_created_witness:
  "map_sum id (\<lambda>l. (status l, amount l)) (create_loan 3 9 7 10000 10 [small_txn]) =
     Inr (LoanPending, 10000)"
  using loan_above_limit_created by simp

text \<open>
  C10. \<open>recalculateSupplierBalance\<close> returns the sum of \<open>amount - total_paid\<close> over the
  supplier's approved loans, stores exactly that value as the \<open>current_balance\<close> of the
  supplier, changes no other supplier, and a second call on the same loans returns the
  same balance and leaves the suppliers as the first call did.
\<close>

theorem recalculate_balance:
  assumes "suppliers sid = Some s"
  shows "fst (recalculateSupplierBalance sid loans suppliers) =
           sum_list (map (\<lambda>l. amount l - total_paid l)
             (filter (\<lambda>l. loan_supplier l = sid \<and> status l = LoanApproved) loans))
       \<and> snd (recalculateSupplierBalance sid loans suppliers) sid =
           Some (s\<lparr>current_balance := fst (recalculateSupplierBalance sid loans suppliers)\<rparr>)
       \<and> (\<forall>other. other \<noteq> sid \<longrightarrow>
             snd (recalculateSupplierBalance sid loans suppliers) other = suppliers other)
       \<and> recalculateSupplierBalance sid loans
             (snd (recalculateSupplierBalance sid loans suppliers)) =
           recalculateSupplierBalance sid loans suppliers"
proof -
  let ?b = "sum_list (map (\<lambda>l. amount l - total_paid l)
             (filter (\<lambda>l. loan_supplier l = sid \<and> status l = LoanApproved) loans))"
  have r: "recalculateSupplierBalance sid loans suppliers =
             (?b, suppliers(sid \<mapsto> s\<lparr>current_balance := ?b\<rparr>))"
    using assms totalRemaining_sum [of sid loans]
    by (simp add: recalculateSupplierBalance_def Let_def findByIdAndUpdate_balance_def)
  have r2: "recalculateSupplierBalance sid loans (suppliers(sid \<mapsto> s\<lparr>current_balance := ?b\<rparr>)) =
             (?b, suppliers(sid \<mapsto> s\<lparr>current_balance := ?b\<rparr>))"
    using totalRemaining_sum [of sid loans]
    by (simp add: recalculateSupplierBalance_def Let_def findByIdAndUpdate_balance_def)
  show ?thesis
    by (simp add: r r2)
qed

theorem recalculate_balance_witness:
  "fst (recalculateSupplierBalance 7
          [scenario_loan\<lparr>total_paid := 800\<rparr>, plain_loan\<lparr>status := LoanPaid\<rparr>]
          [7 \<mapsto> scenario_supplier]) = 200
   \<and> snd (recalculateSupplierBalance 7
          [scenario_loan\<lparr>total_paid := 800\<rparr>, plain_loan\<lparr>status := LoanPaid\<rparr>]
          [7 \<mapsto> scenario_supplier]) 7 = Some (scenario_supplier\<lparr>current_balance := 200\<rparr>)"
proof -
  have h: "[7 \<mapsto> scenario_supplier] (7::nat) = Some scenario_supplier" by simp
  have v: "sum_list (map (\<lambda>l. amount l - total_paid l)
             (filter (\<lambda>l. loan_supplier l = 7 \<and> status l = LoanApproved)
               [scenario_loan\<lparr>total_paid := 800\<rparr>, plain_loan\<lparr>status := LoanPaid\<rparr>])) = 200"
    by (simp add: docs)
  from recalculate_balance
         [where suppliers = "[7 \<mapsto> scenario_supplier]" and sid = 7 and s = scenario_supplier
            and loans = "[scenario_loan\<lparr>total_paid := 800\<rparr>, plain_loan\<lparr>status := LoanPaid\<rparr>]",
          OF h]
  show ?thesis
    unfolding v by simp
qed

end
